theory Spec2Isabelle
  imports Main
begin

unbundle bit_operations_syntax

section \<open>Python values\<close>

text \<open>
  The program is a Python script whose arithmetic is done by the standard library module
  \<open>ipaddress\<close> (CPython 3.11 and 3.12 agree on every function used here). The functions of
  \<open>src/main.py\<close> are embedded in the last section; the library functions they call are
  embedded first, under the library's names (without the leading underscore).

  Exceptions are values: a function that can raise returns \<open>exn + 'a\<close>, with \<open>Inl\<close> the
  exception. \<open>AddressValueError\<close> and \<open>NetmaskValueError\<close> are subclasses of
  \<open>ValueError\<close>; each exception carries its message, which \<open>ip_range_to_cidr\<close> reads.
  A Python \<open>str\<close> is a \<open>string\<close>: a list of code points below 256. Python integers are
  unbounded: \<open>int\<close>.
\<close>

datatype exn =
    AddressValueError string
  | NetmaskValueError string
  | ValueError string
  | TypeError string

fun is_ValueError :: "exn \<Rightarrow> bool" where
  "is_ValueError (AddressValueError m) = True"
| "is_ValueError (NetmaskValueError m) = True"
| "is_ValueError (ValueError m) = True"
| "is_ValueError (TypeError m) = False"

text \<open>The test of \<open>except (AddressValueError, NetmaskValueError)\<close>.\<close>

fun is_AddressOrNetmaskError :: "exn \<Rightarrow> bool" where
  "is_AddressOrNetmaskError (AddressValueError m) = True"
| "is_AddressOrNetmaskError (NetmaskValueError m) = True"
| "is_AddressOrNetmaskError (ValueError m) = False"
| "is_AddressOrNetmaskError (TypeError m) = False"

fun str_exn :: "exn \<Rightarrow> string" where
  "str_exn (AddressValueError m) = m"
| "str_exn (NetmaskValueError m) = m"
| "str_exn (ValueError m) = m"
| "str_exn (TypeError m) = m"

text \<open>Running a function over a list, stopping at the first exception.\<close>

fun map_result :: "('a \<Rightarrow> exn + 'b) \<Rightarrow> 'a list \<Rightarrow> exn + 'b list" where
  "map_result f [] = Inr []"
| "map_result f (x # xs) =
     (case f x of
        Inl e \<Rightarrow> Inl e
      | Inr y \<Rightarrow> (case map_result f xs of Inl e \<Rightarrow> Inl e | Inr ys \<Rightarrow> Inr (y # ys)))"

subsection \<open>Strings\<close>

text \<open>\<open>s.split(sep)\<close> for a separator of one character.\<close>

fun split_chr :: "char \<Rightarrow> string \<Rightarrow> string list" where
  "split_chr sep [] = [[]]"
| "split_chr sep (c # cs) =
     (if c = sep then [] # split_chr sep cs
      else (case split_chr sep cs of [] \<Rightarrow> [[c]] | p # ps \<Rightarrow> (c # p) # ps))"

text \<open>\<open>s.split(sep)\<close> for a non-empty separator string: leftmost matches, not overlapping.\<close>

function split_str :: "string \<Rightarrow> string \<Rightarrow> string list" where
  "split_str sep [] = [[]]"
| "split_str sep (c # cs) =
     (if sep \<noteq> [] \<and> take (length sep) (c # cs) = sep
      then [] # split_str sep (drop (length sep) (c # cs))
      else (case split_str sep cs of [] \<Rightarrow> [[c]] | p # ps \<Rightarrow> (c # p) # ps))"
  by pat_completeness auto
termination
  by (relation "measure (\<lambda>(sep, s). length s)") auto

text \<open>\<open>s.partition(sep)\<close>: the part before the first separator, whether it was found, the rest.\<close>

fun partition_chr :: "char \<Rightarrow> string \<Rightarrow> string \<times> bool \<times> string" where
  "partition_chr sep [] = ([], False, [])"
| "partition_chr sep (c # cs) =
     (if c = sep then ([], True, cs)
      else (case partition_chr sep cs of (a, found, b) \<Rightarrow> (c # a, found, b)))"

fun join :: "string \<Rightarrow> string list \<Rightarrow> string" where
  "join sep [] = []"
| "join sep [x] = x"
| "join sep (x # y # ys) = x @ sep @ join sep (y # ys)"

definition hexdigits :: string where
  "hexdigits = ''0123456789abcdef''"

text \<open>
  \<open>str(n)\<close> and \<open>'%x' % n\<close> for an integer \<open>n \<ge> 0\<close>, then \<open>str(i)\<close> and \<open>repr(i)\<close> for any
  integer.
\<close>

function dec_digits :: "int \<Rightarrow> string" where
  "dec_digits n =
     (if n < 10 then [hexdigits ! nat n]
      else dec_digits (n div 10) @ [hexdigits ! nat (n mod 10)])"
  by pat_completeness auto
termination
  by (relation "measure nat") auto

declare dec_digits.simps [simp del]

function hex_digits :: "int \<Rightarrow> string" where
  "hex_digits n =
     (if n < 16 then [hexdigits ! nat n]
      else hex_digits (n div 16) @ [hexdigits ! nat (n mod 16)])"
  by pat_completeness auto
termination
  by (relation "measure nat") auto

declare hex_digits.simps [simp del]

definition str_int :: "int \<Rightarrow> string" where
  "str_int i = (if i < 0 then ''-'' @ dec_digits (- i) else dec_digits i)"

definition str_nat :: "nat \<Rightarrow> string" where
  "str_nat n = dec_digits (int n)"

text \<open>\<open>'%032x' % n\<close>: hexadecimal, padded with zeros on the left to 32 characters.\<close>

definition hex032 :: "int \<Rightarrow> string" where
  "hex032 n = (let h = hex_digits n in replicate (32 - length h) CHR ''0'' @ h)"

definition is_ascii_digit :: "char \<Rightarrow> bool" where
  "is_ascii_digit c \<longleftrightarrow> c \<in> set ''0123456789''"

text \<open>\<open>s.isascii() and s.isdigit()\<close>: \<open>isdigit\<close> is false on the empty string.\<close>

definition isascii_isdigit :: "string \<Rightarrow> bool" where
  "isascii_isdigit s \<longleftrightarrow> s \<noteq> [] \<and> list_all is_ascii_digit s"

definition HEX_DIGITS :: "char set" where
  "HEX_DIGITS = set ''0123456789ABCDEFabcdef''"

definition digit_value :: "char \<Rightarrow> int" where
  "digit_value c =
     (let n = (of_char c :: int) in
      if n < 58 then n - 48 else if n < 71 then n - 55 else n - 87)"

text \<open>\<open>int(s, base)\<close> on a string already checked to hold digits of that base only.\<close>

definition int_of_digits :: "int \<Rightarrow> string \<Rightarrow> int" where
  "int_of_digits base s = foldl (\<lambda>acc c. acc * base + digit_value c) 0 s"

text \<open>
  \<open>repr(s)\<close>: single quotes unless the string holds a single and no double quote; the
  quote and the backslash escaped; tab, newline and return as letters; every other code
  point that is not printable (below 32, 127 to 160, 173) as \<open>\xhh\<close>.
\<close>

definition repr_chr :: "char \<Rightarrow> char \<Rightarrow> string" where
  "repr_chr q c =
     (let n = (of_char c :: nat) in
      if c = q \<or> c = CHR 0x5C then [CHR 0x5C, c]
      else if n = 9 then [CHR 0x5C, CHR ''t'']
      else if n = 10 then [CHR 0x5C, CHR ''n'']
      else if n = 13 then [CHR 0x5C, CHR ''r'']
      else if n < 32 \<or> (127 \<le> n \<and> n \<le> 160) \<or> n = 173
        then [CHR 0x5C, CHR ''x'', hexdigits ! (n div 16), hexdigits ! (n mod 16)]
      else [c])"

definition repr_str :: "string \<Rightarrow> string" where
  "repr_str s =
     (let q = (if CHR 0x27 \<in> set s \<and> CHR 0x22 \<notin> set s then CHR 0x22 else CHR 0x27)
      in [q] @ concat (map (repr_chr q) s) @ [q])"

text \<open>
  \<open>int(s)\<close> raises \<open>ValueError\<close> on a string of more than
  \<open>sys.get_int_max_str_digits()\<close> digits (4300 unless configured otherwise).
\<close>

definition int_max_str_digits :: nat where
  "int_max_str_digits = 4300"

subsection \<open>Integers\<close>

text \<open>\<open>n.bit_length()\<close>: the number of bits of the absolute value.\<close>

function bit_length :: "int \<Rightarrow> nat" where
  "bit_length n = (if n = 0 then 0 else Suc (bit_length (\<bar>n\<bar> div 2)))"
  by pat_completeness auto
termination
  by (relation "measure (\<lambda>n. nat \<bar>n\<bar>)") auto

declare bit_length.simps [simp del]

definition count_righthand_zero_bits :: "int \<Rightarrow> nat \<Rightarrow> nat" where
  "count_righthand_zero_bits number bits =
     (if number = 0 then bits
      else min bits (bit_length ((NOT number) AND (number - 1))))"

section \<open>The ipaddress library\<close>

subsection \<open>Addresses\<close>

datatype version = V4 | V6

fun version_number :: "version \<Rightarrow> nat" where
  "version_number V4 = 4"
| "version_number V6 = 6"

fun max_prefixlen :: "version \<Rightarrow> nat" where
  "max_prefixlen V4 = 32"
| "max_prefixlen V6 = 128"

definition ALL_ONES :: "version \<Rightarrow> int" where
  "ALL_ONES v = 2 ^ max_prefixlen v - 1"

text \<open>
  An \<open>IPv4Address\<close> or \<open>IPv6Address\<close> object: its class (\<open>_version\<close>), \<open>_ip\<close> and, for
  IPv6, \<open>_scope_id\<close> (the zone after \<open>%\<close>; \<open>None\<close> on every IPv4 address and on every
  address built from an integer).
\<close>

datatype address = Address (version: version) (ip: int) (scope_id: "string option")

definition check_int_address :: "version \<Rightarrow> int \<Rightarrow> exn + unit" where
  "check_int_address v address =
     (if address < 0 then
        Inl (AddressValueError (str_int address @ '' (< 0) is not permitted as an IPv''
               @ str_nat (version_number v) @ '' address''))
      else if address > ALL_ONES v then
        Inl (AddressValueError (str_int address @ '' (>= 2**'' @ str_nat (max_prefixlen v)
               @ '') is not permitted as an IPv'' @ str_nat (version_number v) @ '' address''))
      else Inr ())"

text \<open>\<open>IPv4Address(n)\<close> and \<open>IPv6Address(n)\<close> for an integer \<open>n\<close>.\<close>

definition Address_of_int :: "version \<Rightarrow> int \<Rightarrow> exn + address" where
  "Address_of_int v address =
     (case check_int_address v address of
        Inl e \<Rightarrow> Inl e
      | Inr u \<Rightarrow> Inr (Address v address None))"

definition parse_octet :: "string \<Rightarrow> exn + int" where
  "parse_octet octet_str =
     (if octet_str = [] then Inl (ValueError ''Empty octet not permitted'')
      else if \<not> isascii_isdigit octet_str then
        Inl (ValueError (''Only decimal digits permitted in '' @ repr_str octet_str))
      else if length octet_str > 3 then
        Inl (ValueError (''At most 3 characters permitted in '' @ repr_str octet_str))
      else if octet_str \<noteq> ''0'' \<and> hd octet_str = CHR ''0'' then
        Inl (ValueError (''Leading zeros are not permitted in '' @ repr_str octet_str))
      else
        (let octet_int = int_of_digits 10 octet_str in
         if octet_int > 255 then
           Inl (ValueError (''Octet '' @ str_int octet_int @ '' (> 255) not permitted''))
         else Inr octet_int))"

text \<open>\<open>int.from_bytes(bs, 'big')\<close>.\<close>

definition from_bytes :: "int list \<Rightarrow> int" where
  "from_bytes bs = foldl (\<lambda>acc b. acc * 256 + b) 0 bs"

definition v4_ip_int_from_string :: "string \<Rightarrow> exn + int" where
  "v4_ip_int_from_string ip_str =
     (if ip_str = [] then Inl (AddressValueError ''Address cannot be empty'')
      else
        (let octets = split_chr CHR ''.'' ip_str in
         if length octets \<noteq> 4 then
           Inl (AddressValueError (''Expected 4 octets in '' @ repr_str ip_str))
         else
           (case map_result parse_octet octets of
              Inl exc \<Rightarrow>
                (if is_ValueError exc
                 then Inl (AddressValueError (str_exn exc @ '' in '' @ repr_str ip_str))
                 else Inl exc)
            | Inr bs \<Rightarrow> Inr (from_bytes bs))))"

definition parse_hextet :: "string \<Rightarrow> exn + int" where
  "parse_hextet hextet_str =
     (if \<not> set hextet_str \<subseteq> HEX_DIGITS then
        Inl (ValueError (''Only hex digits permitted in '' @ repr_str hextet_str))
      else if length hextet_str > 4 then
        Inl (ValueError (''At most 4 characters permitted in '' @ repr_str hextet_str))
      else if hextet_str = [] then
        Inl (ValueError (''invalid literal for int() with base 16: '' @ repr_str hextet_str))
      else Inr (int_of_digits 16 hextet_str))"

text \<open>
  The loop of \<open>_ip_int_from_string\<close> that looks for the one empty part between two
  colons: the state is \<open>skip_index\<close>.
\<close>

fun find_skip_index :: "string \<Rightarrow> string list \<Rightarrow> nat list \<Rightarrow> nat option \<Rightarrow> exn + nat option" where
  "find_skip_index ip_str parts [] skip_index = Inr skip_index"
| "find_skip_index ip_str parts (i # is) skip_index =
     (if parts ! i = [] then
        (if skip_index \<noteq> None then
           Inl (AddressValueError (''At most one '::' permitted in '' @ repr_str ip_str))
         else find_skip_index ip_str parts is (Some i))
      else find_skip_index ip_str parts is skip_index)"

text \<open>The two loops that shift the hextets into the integer.\<close>

fun shift_hextets :: "int \<Rightarrow> string list \<Rightarrow> exn + int" where
  "shift_hextets ip_int [] = Inr ip_int"
| "shift_hextets ip_int (p # ps) =
     (case parse_hextet p of
        Inl e \<Rightarrow> Inl e
      | Inr h \<Rightarrow> shift_hextets ((push_bit 16 ip_int) OR h) ps)"

definition v6_ip_int_from_string :: "string \<Rightarrow> exn + int" where
  "v6_ip_int_from_string ip_str =
     (if ip_str = [] then Inl (AddressValueError ''Address cannot be empty'')
      else
        (let parts0 = split_chr CHR '':'' ip_str in
         if length parts0 < 3 then
           Inl (AddressValueError (''At least 3 parts expected in '' @ repr_str ip_str))
         else
           (case
              (if CHR ''.'' \<in> set (last parts0) then
                 (case (if CHR ''/'' \<in> set (last parts0)
                        then Inl (AddressValueError (''Unexpected '/' in '' @ repr_str (last parts0)))
                        else v4_ip_int_from_string (last parts0)) of
                    Inl exc \<Rightarrow>
                      (case exc of
                         AddressValueError m \<Rightarrow>
                           Inl (AddressValueError (m @ '' in '' @ repr_str ip_str))
                       | _ \<Rightarrow> Inl exc)
                  | Inr ipv4_int \<Rightarrow>
                      Inr (butlast parts0
                           @ [hex_digits ((drop_bit 16 ipv4_int) AND 0xFFFF),
                              hex_digits (ipv4_int AND 0xFFFF)]))
               else Inr parts0) of
              Inl e \<Rightarrow> Inl e
            | Inr parts \<Rightarrow>
               (if length parts > 9 then
                  Inl (AddressValueError (''At most 8 colons permitted in '' @ repr_str ip_str))
                else
                  (case find_skip_index ip_str parts [1 ..< length parts - 1] None of
                     Inl e \<Rightarrow> Inl e
                   | Inr skip \<Rightarrow>
                      (case
                         (case skip of
                            Some skip_index \<Rightarrow>
                              (let parts_hi = (if hd parts = [] then skip_index - 1 else skip_index);
                                   parts_lo = (if last parts = []
                                               then length parts - skip_index - 1 - 1
                                               else length parts - skip_index - 1);
                                   parts_skipped = 8 - (int parts_hi + int parts_lo)
                               in if hd parts = [] \<and> parts_hi \<noteq> 0 then
                                    Inl (AddressValueError
                                      (''Leading ':' only permitted as part of '::' in '' @ repr_str ip_str))
                                  else if last parts = [] \<and> parts_lo \<noteq> 0 then
                                    Inl (AddressValueError
                                      (''Trailing ':' only permitted as part of '::' in '' @ repr_str ip_str))
                                  else if parts_skipped < 1 then
                                    Inl (AddressValueError
                                      (''Expected at most 7 other parts with '::' in '' @ repr_str ip_str))
                                  else Inr (parts_hi, parts_lo, nat parts_skipped))
                          | None \<Rightarrow>
                              (if length parts \<noteq> 8 then
                                 Inl (AddressValueError
                                   (''Exactly 8 parts expected without '::' in '' @ repr_str ip_str))
                               else if hd parts = [] then
                                 Inl (AddressValueError
                                   (''Leading ':' only permitted as part of '::' in '' @ repr_str ip_str))
                               else if last parts = [] then
                                 Inl (AddressValueError
                                   (''Trailing ':' only permitted as part of '::' in '' @ repr_str ip_str))
                               else Inr (length parts, 0, 0))) of
                         Inl e \<Rightarrow> Inl e
                       | Inr (parts_hi, parts_lo, parts_skipped) \<Rightarrow>
                          (case
                             (case shift_hextets 0 (take parts_hi parts) of
                                Inl e \<Rightarrow> Inl e
                              | Inr hi \<Rightarrow>
                                 shift_hextets (push_bit (16 * parts_skipped) hi)
                                   (drop (length parts - parts_lo) parts)) of
                             Inl exc \<Rightarrow>
                               (if is_ValueError exc
                                then Inl (AddressValueError (str_exn exc @ '' in '' @ repr_str ip_str))
                                else Inl exc)
                           | Inr ip_int \<Rightarrow> Inr ip_int)))))))"

definition split_scope_id :: "string \<Rightarrow> exn + (string \<times> string option)" where
  "split_scope_id ip_str =
     (case partition_chr CHR ''%'' ip_str of
        (addr, sep, scope) \<Rightarrow>
          (if \<not> sep then Inr (addr, None)
           else if scope = [] \<or> CHR ''%'' \<in> set scope then
             Inl (AddressValueError
               (''Invalid IPv6 address: '' @ [CHR 0x22] @ repr_str ip_str @ [CHR 0x22]))
           else Inr (addr, Some scope)))"

text \<open>\<open>IPv4Address(s)\<close> and \<open>IPv6Address(s)\<close> for a string \<open>s\<close>.\<close>

definition Address_of_str :: "version \<Rightarrow> string \<Rightarrow> exn + address" where
  "Address_of_str v addr_str =
     (if CHR ''/'' \<in> set addr_str then
        Inl (AddressValueError (''Unexpected '/' in '' @ repr_str addr_str))
      else
        (case v of
           V4 \<Rightarrow>
             (case v4_ip_int_from_string addr_str of
                Inl e \<Rightarrow> Inl e
              | Inr n \<Rightarrow> Inr (Address V4 n None))
         | V6 \<Rightarrow>
             (case split_scope_id addr_str of
                Inl e \<Rightarrow> Inl e
              | Inr (addr, scope) \<Rightarrow>
                 (case v6_ip_int_from_string addr of
                    Inl e \<Rightarrow> Inl e
                  | Inr n \<Rightarrow> Inr (Address V6 n scope)))))"

text \<open>
  \<open>ip_address\<close>: IPv4 first, then IPv6. An integer below \<open>2 ^ 32\<close> is therefore always an
  IPv4 address.
\<close>

definition ip_address_str :: "string \<Rightarrow> exn + address" where
  "ip_address_str address =
     (case Address_of_str V4 address of
        Inr a \<Rightarrow> Inr a
      | Inl e4 \<Rightarrow>
         (if \<not> is_AddressOrNetmaskError e4 then Inl e4
          else
            (case Address_of_str V6 address of
               Inr a \<Rightarrow> Inr a
             | Inl e6 \<Rightarrow>
                (if \<not> is_AddressOrNetmaskError e6 then Inl e6
                 else Inl (ValueError (repr_str address
                        @ '' does not appear to be an IPv4 or IPv6 address''))))))"

definition ip_address_int :: "int \<Rightarrow> exn + address" where
  "ip_address_int address =
     (case Address_of_int V4 address of
        Inr a \<Rightarrow> Inr a
      | Inl e4 \<Rightarrow>
         (if \<not> is_AddressOrNetmaskError e4 then Inl e4
          else
            (case Address_of_int V6 address of
               Inr a \<Rightarrow> Inr a
             | Inl e6 \<Rightarrow>
                (if \<not> is_AddressOrNetmaskError e6 then Inl e6
                 else Inl (ValueError (str_int address
                        @ '' does not appear to be an IPv4 or IPv6 address''))))))"

subsection \<open>Text of an address\<close>

text \<open>\<open>n.to_bytes(4, 'big')\<close>, for \<open>0 \<le> n < 2 ^ 32\<close>.\<close>

definition to_bytes4 :: "int \<Rightarrow> int list" where
  "to_bytes4 n = [n div 16777216 mod 256, n div 65536 mod 256, n div 256 mod 256, n mod 256]"

definition v4_string_from_ip_int :: "int \<Rightarrow> string" where
  "v4_string_from_ip_int ip_int = join ''.'' (map str_int (to_bytes4 ip_int))"

text \<open>
  The loop of \<open>_compress_hextets\<close> over \<open>enumerate(hextets)\<close>; the state is
  \<open>(best_doublecolon_start, best_doublecolon_len, doublecolon_start, doublecolon_len)\<close>.
\<close>

definition compress_step :: "int \<times> int \<times> int \<times> int \<Rightarrow> nat \<times> string \<Rightarrow> int \<times> int \<times> int \<times> int" where
  "compress_step st ih =
     (case st of (best_doublecolon_start, best_doublecolon_len, doublecolon_start, doublecolon_len) \<Rightarrow>
      case ih of (index, hextet) \<Rightarrow>
        if hextet = ''0'' then
          (let len1 = doublecolon_len + 1;
               start1 = (if doublecolon_start = - 1 then int index else doublecolon_start)
           in if len1 > best_doublecolon_len then (start1, len1, start1, len1)
              else (best_doublecolon_start, best_doublecolon_len, start1, len1))
        else (best_doublecolon_start, best_doublecolon_len, - 1, 0))"

definition compress_hextets :: "string list \<Rightarrow> string list" where
  "compress_hextets hextets =
     (case foldl compress_step (- 1, 0, - 1, 0) (enumerate 0 hextets) of
        (best_doublecolon_start, best_doublecolon_len, doublecolon_start, doublecolon_len) \<Rightarrow>
          if best_doublecolon_len > 1 then
            (let best_doublecolon_end = best_doublecolon_start + best_doublecolon_len;
                 hextets1 = (if best_doublecolon_end = int (length hextets)
                             then hextets @ [[]] else hextets);
                 hextets2 = take (nat best_doublecolon_start) hextets1 @ [[]]
                            @ drop (nat best_doublecolon_end) hextets1
             in if best_doublecolon_start = 0 then [[]] @ hextets2 else hextets2)
          else hextets)"

definition v6_string_from_ip_int :: "int \<Rightarrow> string" where
  "v6_string_from_ip_int ip_int =
     (let hex_str = hex032 ip_int;
          hextets = map (\<lambda>x. hex_digits (int_of_digits 16 (take 4 (drop x hex_str))))
                      [0, 4, 8, 12, 16, 20, 24, 28]
      in join '':'' (compress_hextets hextets))"

text \<open>\<open>str(a)\<close>: an IPv6 address with a non-empty zone is followed by \<open>%\<close> and the zone.\<close>

definition str_address :: "address \<Rightarrow> string" where
  "str_address a =
     (case version a of
        V4 \<Rightarrow> v4_string_from_ip_int (ip a)
      | V6 \<Rightarrow>
         (let ip_str = v6_string_from_ip_int (ip a) in
          case scope_id a of
            None \<Rightarrow> ip_str
          | Some z \<Rightarrow> if z \<noteq> [] then ip_str @ ''%'' @ z else ip_str))"

subsection \<open>Comparing and moving addresses\<close>

text \<open>
  \<open>__lt__\<close> compares \<open>_ip\<close> and raises \<open>TypeError\<close> across versions. \<open>__eq__\<close> compares
  version and \<open>_ip\<close> and, on IPv6, the zone. The classes are decorated with
  \<open>functools.total_ordering\<close>, which derives \<open>a > b\<close> as \<open>not a < b and a != b\<close> and
  \<open>a <= b\<close> as \<open>a < b or a == b\<close>.
\<close>

definition addr_lt :: "address \<Rightarrow> address \<Rightarrow> exn + bool" where
  "addr_lt a b =
     (if version a \<noteq> version b then
        Inl (TypeError (str_address a @ '' and '' @ str_address b @ '' are not of the same version''))
      else Inr (ip a < ip b))"

definition addr_eq :: "address \<Rightarrow> address \<Rightarrow> bool" where
  "addr_eq a b \<longleftrightarrow>
     ip a = ip b \<and> version a = version b \<and>
     (case version a of V4 \<Rightarrow> True | V6 \<Rightarrow> scope_id a = scope_id b)"

definition addr_gt :: "address \<Rightarrow> address \<Rightarrow> exn + bool" where
  "addr_gt a b = (case addr_lt a b of Inl e \<Rightarrow> Inl e | Inr r \<Rightarrow> Inr (\<not> r \<and> \<not> addr_eq a b))"

definition addr_le :: "address \<Rightarrow> address \<Rightarrow> exn + bool" where
  "addr_le a b = (case addr_lt a b of Inl e \<Rightarrow> Inl e | Inr r \<Rightarrow> Inr (r \<or> addr_eq a b))"

text \<open>\<open>a + n\<close> and \<open>a - n\<close> build a new address of the same class from the integer.\<close>

definition addr_add :: "address \<Rightarrow> int \<Rightarrow> exn + address" where
  "addr_add a n = Address_of_int (version a) (ip a + n)"

definition addr_sub :: "address \<Rightarrow> int \<Rightarrow> exn + address" where
  "addr_sub a n = Address_of_int (version a) (ip a - n)"

subsection \<open>Networks\<close>

text \<open>
  An \<open>IPv4Network\<close> or \<open>IPv6Network\<close> object: \<open>network_address\<close> (an address of the same
  class) and \<open>_prefixlen\<close>. The attribute \<open>netmask\<close> is the address built from
  \<open>_ip_int_from_prefix(_prefixlen)\<close>; the model keeps its integer.
\<close>

datatype network = Network (network_address: address) (prefixlen: nat)

definition net_version :: "network \<Rightarrow> version" where
  "net_version n = version (network_address n)"

definition ip_int_from_prefix :: "version \<Rightarrow> nat \<Rightarrow> int" where
  "ip_int_from_prefix v p = (ALL_ONES v) XOR (drop_bit p (ALL_ONES v))"

definition netmask :: "network \<Rightarrow> int" where
  "netmask n = ip_int_from_prefix (net_version n) (prefixlen n)"

definition hostmask :: "network \<Rightarrow> int" where
  "hostmask n = (netmask n) XOR (ALL_ONES (net_version n))"

definition broadcast_address :: "network \<Rightarrow> address" where
  "broadcast_address n =
     Address (net_version n) ((ip (network_address n)) OR (hostmask n)) None"

definition num_addresses :: "network \<Rightarrow> int" where
  "num_addresses n = ip (broadcast_address n) - ip (network_address n) + 1"

definition str_network :: "network \<Rightarrow> string" where
  "str_network n = str_address (network_address n) @ ''/'' @ str_nat (prefixlen n)"

text \<open>\<open>a in n\<close> for an address \<open>a\<close>, and \<open>n.overlaps(other)\<close>.\<close>

definition contains :: "network \<Rightarrow> address \<Rightarrow> bool" where
  "contains n a \<longleftrightarrow>
     (if net_version n \<noteq> version a then False
      else (ip a) AND (netmask n) = ip (network_address n))"

definition overlaps :: "network \<Rightarrow> network \<Rightarrow> bool" where
  "overlaps self other \<longleftrightarrow>
     contains other (network_address self) \<or>
     (contains other (broadcast_address self) \<or>
      (contains self (network_address other) \<or>
       contains self (broadcast_address other)))"

subsection \<open>Reading a network\<close>

definition report_invalid_netmask :: "string \<Rightarrow> exn" where
  "report_invalid_netmask netmask_repr =
     NetmaskValueError (netmask_repr @ '' is not a valid netmask'')"

definition prefix_from_prefix_string :: "version \<Rightarrow> string \<Rightarrow> exn + nat" where
  "prefix_from_prefix_string v prefixlen_str =
     (if \<not> isascii_isdigit prefixlen_str then
        Inl (report_invalid_netmask (repr_str prefixlen_str))
      else if length prefixlen_str > int_max_str_digits then
        Inl (report_invalid_netmask (repr_str prefixlen_str))
      else
        (let p = int_of_digits 10 prefixlen_str in
         if \<not> (0 \<le> p \<and> p \<le> int (max_prefixlen v)) then
           Inl (report_invalid_netmask (repr_str prefixlen_str))
         else Inr (nat p)))"

text \<open>
  \<open>_prefix_from_ip_int\<close>: \<open>None\<close> stands for its \<open>ValueError\<close>, which its only caller
  catches.
\<close>

definition prefix_from_ip_int :: "version \<Rightarrow> int \<Rightarrow> nat option" where
  "prefix_from_ip_int v ip_int =
     (let trailing_zeroes = count_righthand_zero_bits ip_int (max_prefixlen v);
          p = max_prefixlen v - trailing_zeroes;
          leading_ones = drop_bit trailing_zeroes ip_int;
          all_ones = push_bit p 1 - 1
      in if leading_ones \<noteq> all_ones then None else Some p)"

definition ip_int_from_string :: "version \<Rightarrow> string \<Rightarrow> exn + int" where
  "ip_int_from_string v ip_str =
     (case v of V4 \<Rightarrow> v4_ip_int_from_string ip_str | V6 \<Rightarrow> v6_ip_int_from_string ip_str)"

definition prefix_from_ip_string :: "version \<Rightarrow> string \<Rightarrow> exn + nat" where
  "prefix_from_ip_string v ip_str =
     (case ip_int_from_string v ip_str of
        Inl e \<Rightarrow>
          (case e of
             AddressValueError m \<Rightarrow> Inl (report_invalid_netmask (repr_str ip_str))
           | _ \<Rightarrow> Inl e)
      | Inr ip_int \<Rightarrow>
          (case prefix_from_ip_int v ip_int of
             Some p \<Rightarrow> Inr p
           | None \<Rightarrow>
              (case prefix_from_ip_int v (ip_int XOR (ALL_ONES v)) of
                 Some p \<Rightarrow> Inr p
               | None \<Rightarrow> Inl (report_invalid_netmask (repr_str ip_str)))))"

text \<open>
  The argument of \<open>_make_netmask\<close> is an integer (the default, or the second component of
  a tuple) or the text after the slash. Only IPv4 accepts a dotted netmask or hostmask.
\<close>

datatype mask_arg = MaskInt int | MaskStr string

definition make_netmask :: "version \<Rightarrow> mask_arg \<Rightarrow> exn + nat" where
  "make_netmask v arg =
     (case arg of
        MaskInt p \<Rightarrow>
          (if \<not> (0 \<le> p \<and> p \<le> int (max_prefixlen v))
           then Inl (report_invalid_netmask (str_int p))
           else Inr (nat p))
      | MaskStr s \<Rightarrow>
          (case v of
             V4 \<Rightarrow>
               (case prefix_from_prefix_string V4 s of
                  Inr p \<Rightarrow> Inr p
                | Inl e \<Rightarrow>
                   (case e of
                      NetmaskValueError m \<Rightarrow> prefix_from_ip_string V4 s
                    | _ \<Rightarrow> Inl e))
           | V6 \<Rightarrow> prefix_from_prefix_string V6 s))"

definition split_addr_prefix :: "version \<Rightarrow> string \<Rightarrow> exn + (string \<times> mask_arg)" where
  "split_addr_prefix v address =
     (let addr = split_chr CHR ''/'' address in
      if length addr > 2 then
        Inl (AddressValueError (''Only one '/' permitted in '' @ repr_str address))
      else if length addr > 1 then Inr (addr ! 0, MaskStr (addr ! 1))
      else Inr (addr ! 0, MaskInt (int (max_prefixlen v))))"

text \<open>
  The end of \<open>IPv4Network.__init__\<close> and \<open>IPv6Network.__init__\<close>: host bits are an error
  when \<open>strict\<close>, and cleared otherwise.
\<close>

definition network_init :: "version \<Rightarrow> address \<Rightarrow> nat \<Rightarrow> bool \<Rightarrow> exn + network" where
  "network_init v a p strict =
     (let packed = ip a; m = ip_int_from_prefix v p in
      if packed AND m \<noteq> packed then
        (if strict then Inl (ValueError (str_network (Network a p) @ '' has host bits set''))
         else
           (case Address_of_int v (packed AND m) of
              Inl e \<Rightarrow> Inl e
            | Inr a' \<Rightarrow> Inr (Network a' p)))
      else Inr (Network a p))"

text \<open>\<open>IPv4Network(s, strict)\<close> and \<open>IPv6Network(s, strict)\<close> for a string \<open>s\<close>.\<close>

definition Network_of_str :: "version \<Rightarrow> string \<Rightarrow> bool \<Rightarrow> exn + network" where
  "Network_of_str v address strict =
     (case split_addr_prefix v address of
        Inl e \<Rightarrow> Inl e
      | Inr (addr, m) \<Rightarrow>
         (case Address_of_str v addr of
            Inl e \<Rightarrow> Inl e
          | Inr a \<Rightarrow>
             (case make_netmask v m of
                Inl e \<Rightarrow> Inl e
              | Inr p \<Rightarrow> network_init v a p strict)))"

text \<open>The same constructors for a tuple \<open>(n, prefixlen)\<close> of integers.\<close>

definition Network_of_tuple :: "version \<Rightarrow> int \<times> int \<Rightarrow> bool \<Rightarrow> exn + network" where
  "Network_of_tuple v address strict =
     (case Address_of_int v (fst address) of
        Inl e \<Rightarrow> Inl e
      | Inr a \<Rightarrow>
         (case make_netmask v (MaskInt (snd address)) of
            Inl e \<Rightarrow> Inl e
          | Inr p \<Rightarrow> network_init v a p strict))"

definition ip_network :: "string \<Rightarrow> bool \<Rightarrow> exn + network" where
  "ip_network address strict =
     (case Network_of_str V4 address strict of
        Inr n \<Rightarrow> Inr n
      | Inl e4 \<Rightarrow>
         (if \<not> is_AddressOrNetmaskError e4 then Inl e4
          else
            (case Network_of_str V6 address strict of
               Inr n \<Rightarrow> Inr n
             | Inl e6 \<Rightarrow>
                (if \<not> is_AddressOrNetmaskError e6 then Inl e6
                 else Inl (ValueError (repr_str address
                        @ '' does not appear to be an IPv4 or IPv6 network''))))))"

subsection \<open>Summarizing a range\<close>

text \<open>
  The \<open>while\<close> loop of \<open>summarize_address_range\<close>. The generator's networks are collected
  in a list; an exception raised while one is built ends the iteration.
\<close>

function summarize_loop :: "version \<Rightarrow> int \<Rightarrow> int \<Rightarrow> exn + network list" where
  "summarize_loop v first_int last_int =
     (if first_int \<le> last_int then
        (case Network_of_tuple v
                (first_int,
                 int (max_prefixlen v)
                 - int (min (count_righthand_zero_bits first_int (max_prefixlen v))
                            (bit_length (last_int - first_int + 1) - 1))) True of
           Inl e \<Rightarrow> Inl e
         | Inr net \<Rightarrow>
            (if first_int
                + push_bit (min (count_righthand_zero_bits first_int (max_prefixlen v))
                                (bit_length (last_int - first_int + 1) - 1)) 1
                - 1 = ALL_ONES v
             then Inr [net]
             else
               (case summarize_loop v
                       (first_int
                        + push_bit (min (count_righthand_zero_bits first_int (max_prefixlen v))
                                        (bit_length (last_int - first_int + 1) - 1)) 1)
                       last_int of
                  Inl e \<Rightarrow> Inl e
                | Inr nets \<Rightarrow> Inr (net # nets))))
      else Inr [])"
  by pat_completeness auto
termination
proof (relation "measure (\<lambda>(v, first_int, last_int). nat (last_int - first_int + 1))")
  show "wf (measure (\<lambda>(v, first_int, last_int). nat (last_int - first_int + 1)))"
    by simp
next
  fix v :: version and first_int last_int :: int and net :: network
  assume "first_int \<le> last_int"
  moreover have "0 < (push_bit (min (count_righthand_zero_bits first_int (max_prefixlen v))
                    (bit_length (last_int - first_int + 1) - 1)) 1 :: int)"
    by (simp add: push_bit_eq_mult)
  ultimately show
    "((v, first_int
          + push_bit (min (count_righthand_zero_bits first_int (max_prefixlen v))
                          (bit_length (last_int - first_int + 1) - 1)) 1,
       last_int),
      (v, first_int, last_int))
     \<in> measure (\<lambda>(v, first_int, last_int). nat (last_int - first_int + 1))"
    by simp
qed

declare summarize_loop.simps [simp del]

definition summarize_address_range :: "address \<Rightarrow> address \<Rightarrow> exn + network list" where
  "summarize_address_range first_addr last_addr =
     (if version first_addr \<noteq> version last_addr then
        Inl (TypeError (str_address first_addr @ '' and '' @ str_address last_addr
               @ '' are not of the same version''))
      else
        (case addr_gt first_addr last_addr of
           Inl e \<Rightarrow> Inl e
         | Inr b \<Rightarrow>
            (if b then Inl (ValueError ''last IP address must be greater than first'')
             else summarize_loop (version first_addr) (ip first_addr) (ip last_addr))))"

section \<open>The program: \<open>src/main.py\<close>\<close>

subsection \<open>\<open>ip_range_to_cidr\<close>\<close>

text \<open>
  The body of the \<open>try\<close> block, then the function: a \<open>ValueError\<close> (of any subclass)
  becomes the one-element list \<open>["Error: ..."]\<close>, any other exception leaves the function.
\<close>

definition ip_range_to_cidr_body :: "string \<Rightarrow> string \<Rightarrow> exn + string list" where
  "ip_range_to_cidr_body start_ip end_ip =
     (case ip_address_str start_ip of
        Inl e \<Rightarrow> Inl e
      | Inr a \<Rightarrow>
         (let start_int = ip a in
          case ip_address_str end_ip of
            Inl e \<Rightarrow> Inl e
          | Inr b \<Rightarrow>
             (let end_int = ip b in
              if start_int > end_int then
                Inl (ValueError ''Start IP must be less than or equal to end IP.'')
              else
                (case ip_address_int start_int of
                   Inl e \<Rightarrow> Inl e
                 | Inr first_addr \<Rightarrow>
                    (case ip_address_int end_int of
                       Inl e \<Rightarrow> Inl e
                     | Inr last_addr \<Rightarrow>
                        (case summarize_address_range first_addr last_addr of
                           Inl e \<Rightarrow> Inl e
                         | Inr nets \<Rightarrow> Inr (map str_network nets)))))))"

definition ip_range_to_cidr :: "string \<Rightarrow> string \<Rightarrow> exn + string list" where
  "ip_range_to_cidr start_ip end_ip =
     (case ip_range_to_cidr_body start_ip end_ip of
        Inl e \<Rightarrow> (if is_ValueError e then Inr [''Error: '' @ str_exn e] else Inl e)
      | Inr cidrs \<Rightarrow> Inr cidrs)"

subsection \<open>\<open>count_ip_addresses\<close>\<close>

text \<open>
  The result is the returned number together with the lines printed. \<open>ip_network\<close> is
  called with its default \<open>strict=True\<close>.
\<close>

definition count_ip_addresses :: "string \<Rightarrow> exn + (int \<times> string list)" where
  "count_ip_addresses cidr_text =
     (case ip_network cidr_text True of
        Inr n \<Rightarrow> Inr (num_addresses n, [])
      | Inl e \<Rightarrow>
         (if is_ValueError e then Inr (0, [''Invalid CIDR block: '' @ cidr_text])
          else Inl e))"

subsection \<open>\<open>find_vnet_gaps\<close>\<close>

text \<open>
  \<open>relevant_subnets.sort(key=lambda x: x.network_address)\<close>: a stable sort that compares
  the keys with \<open><\<close> only, so the first comparison across versions raises.
\<close>

fun insort_network :: "network \<Rightarrow> network list \<Rightarrow> exn + network list" where
  "insort_network x [] = Inr [x]"
| "insort_network x (y # ys) =
     (case addr_lt (network_address y) (network_address x) of
        Inl e \<Rightarrow> Inl e
      | Inr b \<Rightarrow>
         (if b then (case insort_network x ys of Inl e \<Rightarrow> Inl e | Inr r \<Rightarrow> Inr (y # r))
          else Inr (x # y # ys)))"

fun sort_by_network_address :: "network list \<Rightarrow> exn + network list" where
  "sort_by_network_address [] = Inr []"
| "sort_by_network_address (x # xs) =
     (case sort_by_network_address xs of
        Inl e \<Rightarrow> Inl e
      | Inr r \<Rightarrow> insort_network x r)"

text \<open>
  The loop over \<open>relevant_subnets\<close> (lines 52 to 55). The state is \<open>current_address\<close> and
  \<open>gaps\<close>. A gap is kept as the pair of addresses that the f-string formats; the text
  \<open>"first - last"\<close> is produced by \<open>gap_text\<close> below.
\<close>

fun sweep :: "address \<Rightarrow> (address \<times> address) list \<Rightarrow> network list
    \<Rightarrow> exn + (address \<times> (address \<times> address) list)" where
  "sweep current_address gs [] = Inr (current_address, gs)"
| "sweep current_address gs (subnet # rest) =
     (case addr_gt (network_address subnet) current_address of
        Inl e \<Rightarrow> Inl e
      | Inr b \<Rightarrow>
         (case (if b then
                  (case addr_sub (network_address subnet) 1 of
                     Inl e \<Rightarrow> Inl e
                   | Inr before \<Rightarrow> Inr (gs @ [(current_address, before)]))
                else Inr gs) of
            Inl e \<Rightarrow> Inl e
          | Inr gs1 \<Rightarrow>
             (case addr_add (broadcast_address subnet) 1 of
                Inl e \<Rightarrow> Inl e
              | Inr next_address \<Rightarrow> sweep next_address gs1 rest)))"

text \<open>The body of the loop over \<open>address_spaces\<close> (lines 46 to 59), for one address space.\<close>

definition space_gaps :: "network \<Rightarrow> network list \<Rightarrow> (address \<times> address) list
    \<Rightarrow> exn + (address \<times> address) list" where
  "space_gaps vnet_space subnet_nets gs =
     (case sort_by_network_address (filter (\<lambda>s. overlaps vnet_space s) subnet_nets) of
        Inl e \<Rightarrow> Inl e
      | Inr relevant_subnets \<Rightarrow>
         (case sweep (network_address vnet_space) gs relevant_subnets of
            Inl e \<Rightarrow> Inl e
          | Inr (current_address, gs1) \<Rightarrow>
             (case addr_le current_address (broadcast_address vnet_space) of
                Inl e \<Rightarrow> Inl e
              | Inr b \<Rightarrow>
                 Inr (if b then gs1 @ [(current_address, broadcast_address vnet_space)]
                      else gs1))))"

fun address_spaces_loop :: "network list \<Rightarrow> network list \<Rightarrow> (address \<times> address) list
    \<Rightarrow> exn + (address \<times> address) list" where
  "address_spaces_loop [] subnet_nets gs = Inr gs"
| "address_spaces_loop (vnet_space # rest) subnet_nets gs =
     (case space_gaps vnet_space subnet_nets gs of
        Inl e \<Rightarrow> Inl e
      | Inr gs1 \<Rightarrow> address_spaces_loop rest subnet_nets gs1)"

text \<open>
  The dictionaries: a virtual network with its keys \<open>address_prefixes\<close>, \<open>subnets\<close> and
  \<open>gaps\<close> (the other keys are carried along untouched in the extension of the record),
  a subnet with its key \<open>address_prefixes\<close>, and a gap record with \<open>gap\<close> and \<open>cidr\<close>.
  \<open>None\<close> is an absent key, which \<open>get\<close> replaces by the empty list.
\<close>

record gap_record =
  g_gap :: string
  g_cidr :: "string list"

record subnet_dict =
  s_address_prefixes :: "string list option"

record vnet_dict =
  v_address_prefixes :: "string list option"
  v_subnets :: "subnet_dict list option"
  v_gaps :: "gap_record list"

definition get_or_empty :: "'a list option \<Rightarrow> 'a list" where
  "get_or_empty x = (case x of None \<Rightarrow> [] | Some xs \<Rightarrow> xs)"

definition gap_text :: "address \<times> address \<Rightarrow> string" where
  "gap_text g = str_address (fst g) @ '' - '' @ str_address (snd g)"

text \<open>
  One element of the final comprehension: \<open>ip_range_to_cidr(*gap.split(" - "))\<close> is a
  \<open>TypeError\<close> unless the split gives two parts.
\<close>

definition gap_entry :: "string \<Rightarrow> exn + gap_record" where
  "gap_entry gap_str =
     (case split_str '' - '' gap_str of
        [start_ip, end_ip] \<Rightarrow>
          (case ip_range_to_cidr start_ip end_ip of
             Inl e \<Rightarrow> Inl e
           | Inr c \<Rightarrow> Inr \<lparr>g_gap = gap_str, g_cidr = c\<rparr>)
      | [start_ip] \<Rightarrow>
          Inl (TypeError (''ip_range_to_cidr() missing 1 required positional argument: ''
                 @ [CHR 0x27] @ ''end_ip'' @ [CHR 0x27]))
      | parts \<Rightarrow>
          Inl (TypeError (''ip_range_to_cidr() takes 2 positional arguments but ''
                 @ str_nat (length parts) @ '' were given'')))"

definition find_gaps_of_vnet :: "'a vnet_dict_scheme \<Rightarrow> exn + 'a vnet_dict_scheme" where
  "find_gaps_of_vnet vnet =
     (case map_result (\<lambda>c. ip_network c False) (get_or_empty (v_address_prefixes vnet)) of
        Inl e \<Rightarrow> Inl e
      | Inr address_spaces \<Rightarrow>
         (case map_result (\<lambda>c. ip_network c False)
                 (concat (map (\<lambda>subnet. get_or_empty (s_address_prefixes subnet))
                            (get_or_empty (v_subnets vnet)))) of
            Inl e \<Rightarrow> Inl e
          | Inr subnet_nets \<Rightarrow>
             (case address_spaces_loop address_spaces subnet_nets [] of
                Inl e \<Rightarrow> Inl e
              | Inr gs \<Rightarrow>
                 (case map_result gap_entry (map gap_text gs) of
                    Inl e \<Rightarrow> Inl e
                  | Inr records \<Rightarrow> Inr (vnet\<lparr>v_gaps := records\<rparr>)))))"

definition find_vnet_gaps :: "'a vnet_dict_scheme list \<Rightarrow> exn + 'a vnet_dict_scheme list" where
  "find_vnet_gaps vnets = map_result find_gaps_of_vnet vnets"

section \<open>Properties of the library\<close>

subsection \<open>The size of a network\<close>





subsection \<open>Every exception of the parsers is a \<open>ValueError\<close>\<close>












lemma Address_of_int_error: "Address_of_int v n = Inl e \<Longrightarrow> is_ValueError e"
  by (auto simp: Address_of_int_def check_int_address_def split: if_splits sum.splits)

lemma Address_of_int_Inr: "Address_of_int v n = Inr a \<Longrightarrow> a = Address v n None \<and> 0 \<le> n \<and> n \<le> ALL_ONES v"
  by (auto simp: Address_of_int_def check_int_address_def split: if_splits sum.splits)








subsection \<open>A network that was read has no host bits\<close>




subsection \<open>Overlapping networks have one version\<close>

lemma contains_version: "contains n a \<Longrightarrow> version a = net_version n"
  by (auto simp: contains_def split: if_splits)

lemma version_broadcast_address [simp]: "version (broadcast_address n) = net_version n"
  by (simp add: broadcast_address_def)

lemma overlaps_version: "overlaps c s \<Longrightarrow> net_version s = net_version c"
  by (auto simp: overlaps_def net_version_def dest!: contains_version)

section \<open>Properties of the gap finder\<close>

subsection \<open>Sorting networks of one version\<close>

lemma insort_network_set:
  "insort_network x ys = Inr zs \<Longrightarrow> set zs = insert x (set ys)"
proof (induction ys arbitrary: zs)
  case Nil
  then show ?case by auto
next
  case (Cons y ys)
  show ?case
  proof (cases "addr_lt (network_address y) (network_address x)")
    case (Inl e)
    with Cons.prems show ?thesis by simp
  next
    case (Inr b)
    show ?thesis
    proof (cases b)
      case True
      with Inr Cons.prems obtain r where r: "insort_network x ys = Inr r" and z: "zs = y # r"
        by (auto split: sum.splits)
      from Cons.IH [OF r] z show ?thesis by auto
    next
      case False
      with Inr Cons.prems show ?thesis by auto
    qed
  qed
qed

lemma sort_by_network_address_set:
  "sort_by_network_address xs = Inr ys \<Longrightarrow> set ys = set xs"
proof (induction xs arbitrary: ys)
  case Nil
  then show ?case by simp
next
  case (Cons x xs)
  from Cons.prems obtain r where r: "sort_by_network_address xs = Inr r"
    and i: "insort_network x r = Inr ys"
    by (cases "sort_by_network_address xs") auto
  from insort_network_set [OF i] Cons.IH [OF r] show ?case
    by simp
qed

lemma insort_network_same_version:
  assumes "\<forall>s\<in>set ys. net_version s = net_version x"
  shows "\<exists>zs. insort_network x ys = Inr zs"
  using assms
proof (induction ys)
  case Nil
  then show ?case by simp
next
  case (Cons y ys)
  then have "addr_lt (network_address y) (network_address x)
             = Inr (ip (network_address y) < ip (network_address x))"
    by (simp add: addr_lt_def net_version_def)
  moreover from Cons obtain zs where "insort_network x ys = Inr zs"
    by auto
  ultimately show ?case
    by simp
qed

lemma sort_by_network_address_same_version:
  assumes "\<forall>s\<in>set xs. net_version s = v"
  shows "\<exists>ys. sort_by_network_address xs = Inr ys"
  using assms
proof (induction xs)
  case Nil
  then show ?case by simp
next
  case (Cons x xs)
  then obtain r where r: "sort_by_network_address xs = Inr r"
    by auto
  with Cons.prems have "\<forall>s\<in>set r. net_version s = net_version x"
    by (auto dest: sort_by_network_address_set)
  from insort_network_same_version [OF this] r show ?case
    by auto
qed

subsection \<open>The sweep\<close>

lemma addr_gt_ip: "addr_gt a b = Inr True \<Longrightarrow> ip b \<le> ip a"
  by (auto simp: addr_gt_def addr_lt_def split: if_splits)

lemma addr_gt_ip_strict:
  "addr_gt a b = Inr True \<Longrightarrow> scope_id a = scope_id b \<Longrightarrow> ip b < ip a"
  by (cases "version a") (auto simp: addr_gt_def addr_lt_def addr_eq_def split: if_splits)

lemma addr_le_ip: "addr_le a b = Inr True \<Longrightarrow> ip a \<le> ip b"
  by (auto simp: addr_le_def addr_lt_def addr_eq_def split: if_splits)

lemma addr_gt_not_TypeError:
  "version a = version b \<Longrightarrow> \<exists>r. addr_gt a b = Inr r"
  by (simp add: addr_gt_def addr_lt_def)

lemma addr_le_not_TypeError:
  "version a = version b \<Longrightarrow> \<exists>r. addr_le a b = Inr r"
  by (simp add: addr_le_def addr_lt_def)

lemma addr_add_Inr: "addr_add a n = Inr b \<Longrightarrow> b = Address (version a) (ip a + n) None"
  by (auto simp: addr_add_def dest: Address_of_int_Inr)

lemma addr_sub_Inr: "addr_sub a n = Inr b \<Longrightarrow> b = Address (version a) (ip a - n) None"
  by (auto simp: addr_sub_def dest: Address_of_int_Inr)

lemma addr_add_error: "addr_add a n = Inl e \<Longrightarrow> is_ValueError e"
  by (auto simp: addr_add_def dest: Address_of_int_error)

lemma addr_sub_error: "addr_sub a n = Inl e \<Longrightarrow> is_ValueError e"
  by (auto simp: addr_sub_def dest: Address_of_int_error)

lemma sweep_error:
  assumes "sweep cur gs subs = Inl e" and "\<forall>s\<in>set subs. net_version s = version cur"
  shows "is_ValueError e"
  using assms
proof (induction subs arbitrary: cur gs)
  case Nil
  then show ?case by simp
next
  case (Cons s subs)
  from Cons.prems(2) have v: "version (network_address s) = version cur"
    by (simp add: net_version_def)
  then obtain b where b: "addr_gt (network_address s) cur = Inr b"
    using addr_gt_not_TypeError by blast
  show ?case
  proof (cases "addr_add (broadcast_address s) 1")
    case (Inl e')
    with Cons.prems(1) b show ?thesis
      by (auto split: sum.splits if_splits dest: addr_sub_error addr_add_error)
  next
    case (Inr nxt)
    then have "version nxt = version cur"
      using Cons.prems(2) by (auto dest!: addr_add_Inr)
    with Cons.prems(2) have "\<forall>s\<in>set subs. net_version s = version nxt"
      by simp
    with Cons.IH Cons.prems(1) b Inr show ?thesis
      by (auto split: sum.splits if_splits dest: addr_sub_error)
  qed
qed

lemma sweep_version:
  assumes "sweep cur gs subs = Inr (cur', gs')" and "\<forall>s\<in>set subs. net_version s = version cur"
  shows "version cur' = version cur"
  using assms
proof (induction subs arbitrary: cur gs)
  case Nil
  then show ?case by simp
next
  case (Cons s subs)
  from Cons.prems(1) obtain nxt gs1 where
    n: "addr_add (broadcast_address s) 1 = Inr nxt" and r: "sweep nxt gs1 subs = Inr (cur', gs')"
    by (auto split: sum.splits if_splits)
  from n Cons.prems(2) have "version nxt = version cur"
    by (auto dest!: addr_add_Inr)
  with Cons.IH [OF r] Cons.prems(2) show ?case
    by simp
qed

lemma space_gaps_error:
  assumes "space_gaps c subs gs = Inl e"
  shows "is_ValueError e"
proof -
  let ?rel = "filter (\<lambda>s. overlaps c s) subs"
  have v: "\<forall>s\<in>set ?rel. net_version s = net_version c"
    by (auto dest: overlaps_version)
  then obtain sorted where s: "sort_by_network_address ?rel = Inr sorted"
    using sort_by_network_address_same_version by blast
  then have vs: "\<forall>s\<in>set sorted. net_version s = version (network_address c)"
    using v by (auto simp: net_version_def dest: sort_by_network_address_set)
  show ?thesis
  proof (cases "sweep (network_address c) gs sorted")
    case (Inl e')
    with assms s sweep_error [OF Inl vs] show ?thesis
      by (simp add: space_gaps_def)
  next
    case (Inr r)
    obtain cur' gs' where r: "r = (cur', gs')"
      by (cases r)
    with Inr have "version cur' = version (network_address c)"
      using sweep_version vs by blast
    then obtain b where "addr_le cur' (broadcast_address c) = Inr b"
      using addr_le_not_TypeError [of cur' "broadcast_address c"] by (auto simp: net_version_def)
    with assms s Inr r show ?thesis
      by (simp add: space_gaps_def)
  qed
qed

lemma sweep_step:
  assumes "sweep cur gs (s # subs) = Inr r"
  shows "\<exists>b gs1 nxt.
           addr_gt (network_address s) cur = Inr b
           \<and> (if b then \<exists>before. addr_sub (network_address s) 1 = Inr before
                                  \<and> gs1 = gs @ [(cur, before)]
                else gs1 = gs)
           \<and> addr_add (broadcast_address s) 1 = Inr nxt
           \<and> sweep nxt gs1 subs = Inr r"
  using assms by (auto split: sum.splits if_splits)

lemma sweep_nonempty:
  assumes "sweep cur gs subs = Inr (cur', gs')"
    and "scope_id cur = None"
    and "\<forall>s\<in>set subs. scope_id (network_address s) = None"
    and "\<forall>g\<in>set gs. ip (fst g) \<le> ip (snd g)"
  shows "\<forall>g\<in>set gs'. ip (fst g) \<le> ip (snd g)"
  using assms
proof (induction subs arbitrary: cur gs)
  case Nil
  then show ?case by simp
next
  case (Cons s subs)
  from sweep_step [OF Cons.prems(1)] obtain b gs1 nxt where
    b: "addr_gt (network_address s) cur = Inr b"
    and g: "if b then \<exists>before. addr_sub (network_address s) 1 = Inr before
                               \<and> gs1 = gs @ [(cur, before)]
            else gs1 = gs"
    and n: "addr_add (broadcast_address s) 1 = Inr nxt"
    and r: "sweep nxt gs1 subs = Inr (cur', gs')"
    by blast
  have "\<forall>g\<in>set gs1. ip (fst g) \<le> ip (snd g)"
  proof (cases b)
    case True
    with g obtain before where bf: "addr_sub (network_address s) 1 = Inr before"
      and gs1: "gs1 = gs @ [(cur, before)]"
      by auto
    from b True Cons.prems(2,3) have "ip cur < ip (network_address s)"
      by (intro addr_gt_ip_strict) auto
    with bf have "ip cur \<le> ip before"
      by (auto dest!: addr_sub_Inr)
    with gs1 Cons.prems(4) show ?thesis
      by auto
  next
    case False
    with g Cons.prems(4) show ?thesis
      by auto
  qed
  moreover from n have "scope_id nxt = None"
    by (auto dest!: addr_add_Inr)
  ultimately show ?case
    using Cons.IH [OF r] Cons.prems(3) by simp
qed

lemma space_gaps_nonempty_without_zones:
  assumes "space_gaps c subs gs = Inr gs'"
    and "scope_id (network_address c) = None"
    and "\<forall>s\<in>set subs. scope_id (network_address s) = None"
    and "\<forall>g\<in>set gs. ip (fst g) \<le> ip (snd g)"
  shows "\<forall>g\<in>set gs'. ip (fst g) \<le> ip (snd g)"
proof -
  from assms(1) obtain sorted cur' gs1 b where
    s: "sort_by_network_address (filter (\<lambda>s. overlaps c s) subs) = Inr sorted"
    and w: "sweep (network_address c) gs sorted = Inr (cur', gs1)"
    and l: "addr_le cur' (broadcast_address c) = Inr b"
    and r: "gs' = (if b then gs1 @ [(cur', broadcast_address c)] else gs1)"
    by (auto simp: space_gaps_def split: sum.splits prod.splits)
  from s assms(3) have "\<forall>s\<in>set sorted. scope_id (network_address s) = None"
    by (auto dest: sort_by_network_address_set)
  from sweep_nonempty [OF w assms(2) this assms(4)]
  have "\<forall>g\<in>set gs1. ip (fst g) \<le> ip (snd g)" .
  with r l show ?thesis
    by (auto dest: addr_le_ip)
qed

section \<open>The claims\<close>

subsection \<open>Example 1 of the specification\<close>

text \<open>
  C8. For the container \<open>10.0.0.0/24\<close> with the sub-ranges \<open>10.0.0.0/26\<close> and
  \<open>10.0.0.128/26\<close>, \<open>find_vnet_gaps\<close> stores exactly two gap records, in ascending order:
  \<open>10.0.0.64 - 10.0.0.127\<close> summarized as \<open>10.0.0.64/26\<close>, then
  \<open>10.0.0.192 - 10.0.0.255\<close> summarized as \<open>10.0.0.192/26\<close>.
\<close>

theorem C8_example_two_gaps:
  "find_vnet_gaps
     [\<lparr>v_address_prefixes = Some [''10.0.0.0/24''],
       v_subnets = Some [\<lparr>s_address_prefixes = Some [''10.0.0.0/26'']\<rparr>,
                         \<lparr>s_address_prefixes = Some [''10.0.0.128/26'']\<rparr>],
       v_gaps = []\<rparr>]
   = Inr
     [\<lparr>v_address_prefixes = Some [''10.0.0.0/24''],
       v_subnets = Some [\<lparr>s_address_prefixes = Some [''10.0.0.0/26'']\<rparr>,
                         \<lparr>s_address_prefixes = Some [''10.0.0.128/26'']\<rparr>],
       v_gaps = [\<lparr>g_gap = ''10.0.0.64 - 10.0.0.127'', g_cidr = [''10.0.0.64/26'']\<rparr>,
                 \<lparr>g_gap = ''10.0.0.192 - 10.0.0.255'', g_cidr = [''10.0.0.192/26'']\<rparr>]\<rparr>]"
  by code_simp

subsection \<open>The address counter\<close>





text \<open>
  C7. The claim: a valid CIDR text with host bits set is accepted and normalized by every
  operation that reads CIDR text, the address counter included. On \<open>10.0.0.1/24\<close> the
  address counter (strict reading) returns 0, while the reading of \<open>find_vnet_gaps\<close>
  (\<open>strict=False\<close>) accepts the same text as \<open>10.0.0.0/24\<close>.
\<close>

theorem C7_counter_rejects_host_bits:
  "count_ip_addresses ''10.0.0.1/24'' = Inr (0, [''Invalid CIDR block: 10.0.0.1/24''])
   \<and> ip_network ''10.0.0.1/24'' True = Inl (ValueError ''10.0.0.1/24 has host bits set'')
   \<and> ip_network ''10.0.0.1/24'' False = Inr (Network (Address V4 167772160 None) 24)"
  by code_simp

subsection \<open>Range summarization\<close>

text \<open>
  C4, as stated: when the start address is greater than the end address, range
  summarization fails with an error signaled to the caller and returns no ordinary list.
  The code returns an ordinary one-element list holding an error text.
\<close>

theorem C4_counterexample:
  "ip_address_str ''192.168.1.10'' = Inr (Address V4 3232235786 None)
   \<and> ip_address_str ''192.168.1.5'' = Inr (Address V4 3232235781 None)
   \<and> ip_range_to_cidr ''192.168.1.10'' ''192.168.1.5''
       = Inr [''Error: Start IP must be less than or equal to end IP.'']"
  by code_simp

text \<open>
  C4, amended: for every pair of well-formed addresses whose start is greater than the
  end (as integers), \<open>ip_range_to_cidr\<close> returns the one-element list
  \<open>["Error: Start IP must be less than or equal to end IP."]\<close>.
\<close>

theorem C4_error_text_returned:
  assumes "ip_address_str start_ip = Inr a" and "ip_address_str end_ip = Inr b"
    and "ip a > ip b"
  shows "ip_range_to_cidr start_ip end_ip
         = Inr [''Error: Start IP must be less than or equal to end IP.'']"
  using assms by (simp add: ip_range_to_cidr_def ip_range_to_cidr_body_def)

theorem C4_error_text_returned_witness:
  "ip_address_str ''10.0.0.2'' = Inr (Address V4 167772162 None)
   \<and> ip_address_str ''fe80::1'' = Inr (Address V6 338288524927261089654018896841347694593 None)
   \<and> ip_range_to_cidr ''fe80::1'' ''10.0.0.2''
       = Inr [''Error: Start IP must be less than or equal to end IP.'']"
proof -
  have a: "ip_address_str ''fe80::1'' = Inr (Address V6 338288524927261089654018896841347694593 None)"
    by code_simp
  have b: "ip_address_str ''10.0.0.2'' = Inr (Address V4 167772162 None)"
    by code_simp
  have c: "ip (Address V6 338288524927261089654018896841347694593 None) > ip (Address V4 167772162 None)"
    by simp
  show ?thesis
    using C4_error_text_returned [OF a b c] a b by simp
qed

text \<open>
  C2. The claim: for start \<open>\<le>\<close> end of the same family, the blocks returned cover exactly
  \<open>[start, end]\<close>. \<open>ip_range_to_cidr\<close> rebuilds both addresses from their integers, and
  \<open>ip_address\<close> reads an integer below \<open>2 ^ 32\<close> as IPv4: the IPv6 range \<open>::1\<close> to \<open>::2\<close>
  comes back as IPv4 blocks, and the IPv6 range \<open>::\<close> to \<open>::1:0:0\<close> raises a \<open>TypeError\<close>
  that the \<open>except ValueError\<close> clause does not catch.
\<close>

theorem C2_small_ipv6_range_becomes_ipv4:
  "ip_address_str ''::1'' = Inr (Address V6 1 None)
   \<and> ip_address_str ''::2'' = Inr (Address V6 2 None)
   \<and> ip_range_to_cidr ''::1'' ''::2'' = Inr [''0.0.0.1/32'', ''0.0.0.2/32'']
   \<and> ip_address_str ''::'' = Inr (Address V6 0 None)
   \<and> ip_address_str ''::1:0:0'' = Inr (Address V6 4294967296 None)
   \<and> ip_range_to_cidr ''::'' ''::1:0:0''
       = Inl (TypeError ''0.0.0.0 and ::1:0:0 are not of the same version'')"
  by code_simp

subsection \<open>The gap finder\<close>

text \<open>
  C5. The gap finder ignores the sub-ranges of another address family and those that do
  not overlap the container: for one address space, the outcome (the gaps, or the
  exception) is the same as on the list with those sub-ranges removed, and their presence
  never makes the comparison of addresses fail with a \<open>TypeError\<close>.
\<close>

theorem C5_unrelated_subnets_ignored:
  "space_gaps vnet_space subnet_nets gs
   = space_gaps vnet_space
       (filter (\<lambda>s. net_version s = net_version vnet_space \<and> overlaps vnet_space s) subnet_nets) gs
   \<and> (\<forall>m. space_gaps vnet_space subnet_nets gs \<noteq> Inl (TypeError m))"
proof
  have "filter (\<lambda>s. overlaps vnet_space s)
          (filter (\<lambda>s. net_version s = net_version vnet_space \<and> overlaps vnet_space s) subnet_nets)
        = filter (\<lambda>s. overlaps vnet_space s) subnet_nets"
    by (induction subnet_nets) (auto dest: overlaps_version)
  then show "space_gaps vnet_space subnet_nets gs
   = space_gaps vnet_space
       (filter (\<lambda>s. net_version s = net_version vnet_space \<and> overlaps vnet_space s) subnet_nets) gs"
    by (simp add: space_gaps_def)
next
  show "\<forall>m. space_gaps vnet_space subnet_nets gs \<noteq> Inl (TypeError m)"
    using space_gaps_error [of vnet_space subnet_nets gs] by fastforce
qed

text \<open>
  C3. The claim: the cursor never moves backward; after each sorted sub-range it is
  \<open>max(cursor, subrange.last + 1)\<close>. The code assigns \<open>subnet.broadcast_address + 1\<close>:
  with the sub-ranges \<open>10.0.0.0/24\<close> and \<open>10.0.0.0/26\<close> (already in sorted order) the
  cursor is \<open>10.0.1.0\<close> after the first and \<open>10.0.0.64\<close> after the second.
\<close>

theorem C3_cursor_moves_backward:
  "ip_network ''10.0.0.0/24'' False = Inr (Network (Address V4 167772160 None) 24)
   \<and> ip_network ''10.0.0.0/26'' False = Inr (Network (Address V4 167772160 None) 26)
   \<and> sort_by_network_address
         [Network (Address V4 167772160 None) 24, Network (Address V4 167772160 None) 26]
       = Inr [Network (Address V4 167772160 None) 24, Network (Address V4 167772160 None) 26]
   \<and> sweep (Address V4 167772160 None) [] [Network (Address V4 167772160 None) 24]
       = Inr (Address V4 167772416 None, [])
   \<and> sweep (Address V4 167772160 None) []
         [Network (Address V4 167772160 None) 24, Network (Address V4 167772160 None) 26]
       = Inr (Address V4 167772224 None, [])
   \<and> str_address (Address V4 167772416 None) = ''10.0.1.0''
   \<and> str_address (Address V4 167772224 None) = ''10.0.0.64''"
  by code_simp

text \<open>
  C1. The claim: the gaps and the sub-ranges together are exactly the container, and do
  not overlap. For the container \<open>10.0.0.0/24\<close> with the sub-ranges \<open>10.0.0.0/24\<close> and
  \<open>10.0.0.0/26\<close> the code reports the gap \<open>10.0.0.64 - 10.0.0.255\<close>, every address of
  which lies in the first sub-range.
\<close>

theorem C1_gap_inside_a_subnet:
  "find_vnet_gaps
     [\<lparr>v_address_prefixes = Some [''10.0.0.0/24''],
       v_subnets = Some [\<lparr>s_address_prefixes = Some [''10.0.0.0/24'']\<rparr>,
                         \<lparr>s_address_prefixes = Some [''10.0.0.0/26'']\<rparr>],
       v_gaps = []\<rparr>]
   = Inr
     [\<lparr>v_address_prefixes = Some [''10.0.0.0/24''],
       v_subnets = Some [\<lparr>s_address_prefixes = Some [''10.0.0.0/24'']\<rparr>,
                         \<lparr>s_address_prefixes = Some [''10.0.0.0/26'']\<rparr>],
       v_gaps = [\<lparr>g_gap = ''10.0.0.64 - 10.0.0.255'',
                   g_cidr = [''10.0.0.64/26'', ''10.0.0.128/25'']\<rparr>]\<rparr>]
   \<and> ip_network ''10.0.0.0/24'' False = Inr (Network (Address V4 167772160 None) 24)
   \<and> ip_address_str ''10.0.0.64'' = Inr (Address V4 167772224 None)
   \<and> contains (Network (Address V4 167772160 None) 24) (Address V4 167772224 None)"
  by code_simp

text \<open>
  C10. The claim: every gap record has its first address at most its last. An IPv6
  address with a zone and the same address without one are neither \<open><\<close> nor \<open>==\<close>, so that
  \<open>>\<close> holds between them: for the container \<open>fe80::%1/127\<close> and the sub-range
  \<open>fe80::/128\<close> the first gap runs from \<open>fe80::\<close> (zone 1) down to the address before it.
\<close>

theorem C10_inverted_gap_with_zone:
  "find_vnet_gaps
     [\<lparr>v_address_prefixes = Some [''fe80::%1/127''],
       v_subnets = Some [\<lparr>s_address_prefixes = Some [''fe80::/128'']\<rparr>],
       v_gaps = []\<rparr>]
   = Inr
     [\<lparr>v_address_prefixes = Some [''fe80::%1/127''],
       v_subnets = Some [\<lparr>s_address_prefixes = Some [''fe80::/128'']\<rparr>],
       v_gaps = [\<lparr>g_gap = ''fe80::%1 - fe7f:ffff:ffff:ffff:ffff:ffff:ffff:ffff'',
                   g_cidr = [''Error: Start IP must be less than or equal to end IP.'']\<rparr>,
                 \<lparr>g_gap = ''fe80::1 - fe80::1'', g_cidr = [''fe80::1/128'']\<rparr>]\<rparr>]
   \<and> ip_network ''fe80::%1/127'' False
       = Inr (Network (Address V6 338288524927261089654018896841347694592 (Some ''1'')) 127)
   \<and> ip_network ''fe80::/128'' False
       = Inr (Network (Address V6 338288524927261089654018896841347694592 None) 128)
   \<and> space_gaps (Network (Address V6 338288524927261089654018896841347694592 (Some ''1'')) 127)
         [Network (Address V6 338288524927261089654018896841347694592 None) 128] []
       = Inr [(Address V6 338288524927261089654018896841347694592 (Some ''1''),
               Address V6 338288524927261089654018896841347694591 None),
              (Address V6 338288524927261089654018896841347694593 None,
               Address V6 338288524927261089654018896841347694593 None)]"
  by code_simp

end
